theory Spec2Isabelle
  imports Main "HOL-Library.Sublist"
begin

section \<open>The SQLite dialect's data types (lib/dialects/sqlite/data-types.js)\<close>

text \<open>
  The module receives the abstract type classes \<open>BaseTypes\<close>, records for each of them the
  native SQLite type names, derives a dialect class from each (\<open>inherits\<close>), overrides
  \<open>toSql\<close> and \<open>parse\<close> where SQLite differs, and exports the dialect classes.
  Objects are records, the fields that the module reads and writes are JavaScript values,
  a method that assigns to \<open>this\<close> returns the updated record, and every call of the
  warning hook is returned in a list, in the order of the calls.
\<close>

subsection \<open>JavaScript values\<close>

text \<open>
  The primitive values that reach the module. \<open>JNum n\<close> is the Number with the integer
  value \<open>n\<close>; the three special Numbers have constructors of their own. Numbers with a
  fractional part are not represented.
\<close>

datatype jsval =
    JUndefined
  | JNull
  | JBool bool
  | JNum int
  | JNaN
  | JInfinity
  | JNegInfinity
  | JStr string

text \<open>ToBoolean, the test of \<open>if (v)\<close> and of \<open>a || b\<close>.\<close>

fun truthy :: "jsval \<Rightarrow> bool" where
  "truthy JUndefined = False"
| "truthy JNull = False"
| "truthy (JBool b) = b"
| "truthy (JNum n) = (n \<noteq> 0)"
| "truthy JNaN = False"
| "truthy JInfinity = True"
| "truthy JNegInfinity = True"
| "truthy (JStr s) = (s \<noteq> [])"

text \<open>\<open>typeof v === 'number'\<close>.\<close>

fun typeof_number :: "jsval \<Rightarrow> bool" where
  "typeof_number (JNum n) = True"
| "typeof_number JNaN = True"
| "typeof_number JInfinity = True"
| "typeof_number JNegInfinity = True"
| "typeof_number v = False"

text \<open>\<open>_.isString(v)\<close> on a primitive value.\<close>

fun isString :: "jsval \<Rightarrow> bool" where
  "isString (JStr s) = True"
| "isString v = False"

text \<open>
  ToString, the conversion that a template literal \<open>${v}\<close> and \<open>string + v\<close> apply.
  An integer Number prints as its decimal numeral (as JavaScript does below \<open>10^21\<close>).
\<close>

definition digit_char :: "nat \<Rightarrow> char" where
  "digit_char d = ''0123456789'' ! (d mod 10)"

function nat_to_string :: "nat \<Rightarrow> string" where
  "nat_to_string n =
     (if n < 10 then [digit_char n] else nat_to_string (n div 10) @ [digit_char (n mod 10)])"
  by pat_completeness auto
termination
  by (relation "measure (\<lambda>n. n)") auto

declare nat_to_string.simps [simp del]

definition int_to_string :: "int \<Rightarrow> string" where
  "int_to_string i = (if i < 0 then CHR ''-'' # nat_to_string (nat (- i)) else nat_to_string (nat i))"

fun js_to_string :: "jsval \<Rightarrow> string" where
  "js_to_string JUndefined = ''undefined''"
| "js_to_string JNull = ''null''"
| "js_to_string (JBool b) = (if b then ''true'' else ''false'')"
| "js_to_string (JNum n) = int_to_string n"
| "js_to_string JNaN = ''NaN''"
| "js_to_string JInfinity = ''Infinity''"
| "js_to_string JNegInfinity = ''-Infinity''"
| "js_to_string (JStr s) = s"

datatype js_error = TypeError | SyntaxError

subsection \<open>Type classes and instances\<close>

text \<open>
  The abstract type classes that the module reads from \<open>BaseTypes\<close>, and the dialect
  classes that it derives from them and exports (lines 278-296). \<open>CHARTYPE\<close> is the
  source's \<open>CHAR\<close>, \<open>JSONTYPE\<close> is the source's own name for its JSON class.
\<close>

datatype base_type =
    BaseTypes_DATE | BaseTypes_STRING | BaseTypes_CHAR | BaseTypes_TEXT
  | BaseTypes_TINYINT | BaseTypes_SMALLINT | BaseTypes_MEDIUMINT | BaseTypes_INTEGER
  | BaseTypes_BIGINT | BaseTypes_FLOAT | BaseTypes_TIME | BaseTypes_DATEONLY
  | BaseTypes_BOOLEAN | BaseTypes_BLOB | BaseTypes_DECIMAL | BaseTypes_UUID
  | BaseTypes_ENUM | BaseTypes_REAL | BaseTypes_DOUBLE | BaseTypes_GEOMETRY
  | BaseTypes_JSON | BaseTypes_CITEXT | BaseTypes_NUMBER

datatype dialect_type =
    DATE | DATEONLY | STRING | CHARTYPE | NUMBER | FLOAT | REAL | DOUBLE
  | TINYINT | SMALLINT | MEDIUMINT | INTEGER | BIGINT | TEXT | ENUM | JSONTYPE | CITEXT

text \<open>\<open>inherits(X, BaseTypes.X)\<close>: the abstract class of each dialect class.\<close>

fun base_of :: "dialect_type \<Rightarrow> base_type" where
  "base_of DATE = BaseTypes_DATE"
| "base_of DATEONLY = BaseTypes_DATEONLY"
| "base_of STRING = BaseTypes_STRING"
| "base_of CHARTYPE = BaseTypes_CHAR"
| "base_of NUMBER = BaseTypes_NUMBER"
| "base_of FLOAT = BaseTypes_FLOAT"
| "base_of REAL = BaseTypes_REAL"
| "base_of DOUBLE = BaseTypes_DOUBLE"
| "base_of TINYINT = BaseTypes_TINYINT"
| "base_of SMALLINT = BaseTypes_SMALLINT"
| "base_of MEDIUMINT = BaseTypes_MEDIUMINT"
| "base_of INTEGER = BaseTypes_INTEGER"
| "base_of BIGINT = BaseTypes_BIGINT"
| "base_of TEXT = BaseTypes_TEXT"
| "base_of ENUM = BaseTypes_ENUM"
| "base_of JSONTYPE = BaseTypes_JSON"
| "base_of CITEXT = BaseTypes_CITEXT"

text \<open>
  The export table (lines 278-296), in the order of the source; line 299 gives a class
  the name it is exported under as its \<open>key\<close>.
\<close>

definition exports :: "(string \<times> dialect_type) list" where
  "exports =
    [(''DATE'', DATE), (''DATEONLY'', DATEONLY), (''STRING'', STRING), (''CHAR'', CHARTYPE),
     (''NUMBER'', NUMBER), (''FLOAT'', FLOAT), (''REAL'', REAL), (''DOUBLE PRECISION'', DOUBLE),
     (''TINYINT'', TINYINT), (''SMALLINT'', SMALLINT), (''MEDIUMINT'', MEDIUMINT),
     (''INTEGER'', INTEGER), (''BIGINT'', BIGINT), (''TEXT'', TEXT), (''ENUM'', ENUM),
     (''JSON'', JSONTYPE), (''CITEXT'', CITEXT)]"

fun key :: "dialect_type \<Rightarrow> string" where
  "key DATE = ''DATE''"
| "key DATEONLY = ''DATEONLY''"
| "key STRING = ''STRING''"
| "key CHARTYPE = ''CHAR''"
| "key NUMBER = ''NUMBER''"
| "key FLOAT = ''FLOAT''"
| "key REAL = ''REAL''"
| "key DOUBLE = ''DOUBLE PRECISION''"
| "key TINYINT = ''TINYINT''"
| "key SMALLINT = ''SMALLINT''"
| "key MEDIUMINT = ''MEDIUMINT''"
| "key INTEGER = ''INTEGER''"
| "key BIGINT = ''BIGINT''"
| "key TEXT = ''TEXT''"
| "key ENUM = ''ENUM''"
| "key JSONTYPE = ''JSON''"
| "key CITEXT = ''CITEXT''"

text \<open>
  The options object that a constructor receives and an instance keeps as
  \<open>this.options\<close>, with the construction options that the module reads.
\<close>

record options =
  opt_length :: jsval
  opt_binary :: jsval
  opt_decimals :: jsval
  opt_unsigned :: jsval
  opt_zerofill :: jsval

text \<open>
  A type instance: \<open>d_kind\<close> is the class that constructed it, \<open>d_key\<close> is
  \<open>this.key\<close>, \<open>d_options\<close> is \<open>this.options\<close>, and \<open>d_length\<close>, \<open>d_binary\<close>,
  \<open>d_decimals\<close>, \<open>d_unsigned\<close>, \<open>d_zerofill\<close> are the fields \<open>this._length\<close>,
  \<open>this._binary\<close>, \<open>this._decimals\<close>, \<open>this._unsigned\<close>, \<open>this._zerofill\<close>.
\<close>

record dataType =
  d_kind :: dialect_type
  d_key :: string
  d_options :: options
  d_length :: jsval
  d_binary :: jsval
  d_decimals :: jsval
  d_unsigned :: jsval
  d_zerofill :: jsval

subsection \<open>Warnings\<close>

text \<open>
  Line 7: \<open>warn\<close> is the hook \<open>BaseTypes.ABSTRACT.warn\<close> with its first argument, the
  link, bound. A warning is the pair of arguments that the hook is called with.
\<close>

type_synonym warning = "string \<times> string"

definition warn :: "string \<Rightarrow> warning" where
  "warn text = (''https://www.sqlite.org/datatype3.html'', text)"

subsection \<open>Integer types: construction\<close>

text \<open>Lines 14-20.\<close>

definition removeUnsupportedIntegerOptions :: "dataType \<Rightarrow> dataType \<times> warning list" where
  "removeUnsupportedIntegerOptions dataType =
     (if truthy (d_zerofill dataType) \<or> truthy (d_unsigned dataType)
      then (dataType\<lparr>d_unsigned := JUndefined, d_zerofill := JUndefined\<rparr>,
            [warn (''SQLite does not support '' @ [CHR 0x27] @ d_key dataType @ [CHR 0x27]
                   @ '' with UNSIGNED or ZEROFILL. Plain '' @ [CHR 0x27] @ d_key dataType
                   @ [CHR 0x27] @ '' will be used instead.'')])
      else (dataType, []))"

text \<open>
  Modelled from the spec: the constructors of the abstract classes (\<open>BaseTypes.X.apply(this,
  arguments)\<close>), which are defined outside this module. The spec says of them that they
  expose the construction options (length, decimals, unsigned and zerofill flags, binary
  flag); the instance keeps the options object, carries the key of its class, and no
  warning is emitted.
\<close>

definition BaseTypes_apply :: "dialect_type \<Rightarrow> options \<Rightarrow> dataType" where
  "BaseTypes_apply t opts =
     \<lparr>d_kind = t, d_key = key t, d_options = opts,
      d_length = opt_length opts, d_binary = opt_binary opts, d_decimals = opt_decimals opts,
      d_unsigned = opt_unsigned opts, d_zerofill = opt_zerofill opts\<rparr>"

text \<open>The five classes whose constructor calls \<open>removeUnsupportedIntegerOptions\<close>.\<close>

fun is_integer_type :: "dialect_type \<Rightarrow> bool" where
  "is_integer_type TINYINT = True"
| "is_integer_type SMALLINT = True"
| "is_integer_type MEDIUMINT = True"
| "is_integer_type INTEGER = True"
| "is_integer_type BIGINT = True"
| "is_integer_type t = False"

text \<open>
  \<open>new X(options)\<close>: every constructor of the module applies the constructor of its
  abstract class; those of the integer classes then remove the unsupported options
  (lines 160-218).
\<close>

definition construct :: "dialect_type \<Rightarrow> options \<Rightarrow> dataType \<times> warning list" where
  "construct t opts =
     (if is_integer_type t then removeUnsupportedIntegerOptions (BaseTypes_apply t opts)
      else (BaseTypes_apply t opts, []))"

subsection \<open>Rendering\<close>

text \<open>Lines 140-158.\<close>

definition NUMBER_toSql :: "dataType \<Rightarrow> string" where
  "NUMBER_toSql this =
     (let result = d_key this;
          result = (if truthy (d_unsigned this) then result @ '' UNSIGNED'' else result);
          result = (if truthy (d_zerofill this) then result @ '' ZEROFILL'' else result);
          result = (if truthy (d_length this)
                    then (let result = result @ ''('' @ js_to_string (d_length this);
                              result = (if typeof_number (d_decimals this)
                                        then result @ '','' @ js_to_string (d_decimals this)
                                        else result)
                          in result @ '')'')
                    else result)
      in result)"

text \<open>
  Modelled from the spec: \<open>BaseTypes.STRING.prototype.toSql\<close>, which is defined outside
  this module and which the module calls when the binary flag is not set. The spec gives
  the rendering in that case as \<open>VARCHAR(length)\<close>.
\<close>

definition BaseTypes_STRING_toSql :: "dataType \<Rightarrow> string" where
  "BaseTypes_STRING_toSql this = ''VARCHAR('' @ js_to_string (d_length this) @ '')''"

text \<open>
  Modelled from the spec: \<open>BaseTypes.CHAR.prototype.toSql\<close>, which is defined outside
  this module and which the module calls when the binary flag is not set. The spec gives
  the rendering in that case as \<open>CHAR(length)\<close>.
\<close>

definition BaseTypes_CHAR_toSql :: "dataType \<Rightarrow> string" where
  "BaseTypes_CHAR_toSql this = ''CHAR('' @ js_to_string (d_length this) @ '')''"

text \<open>Lines 88-94.\<close>

definition STRING_toSql :: "dataType \<Rightarrow> string" where
  "STRING_toSql this =
     (if truthy (d_binary this)
      then ''VARCHAR BINARY('' @ js_to_string (d_length this) @ '')''
      else BaseTypes_STRING_toSql this)"

text \<open>Lines 102-108: the method assigns to \<open>this._length\<close> and calls the warning hook.\<close>

definition TEXT_toSql :: "dataType \<Rightarrow> string \<times> dataType \<times> warning list" where
  "TEXT_toSql this =
     (if truthy (d_length this)
      then (''TEXT'', this\<lparr>d_length := JUndefined\<rparr>,
            [warn ''SQLite does not support TEXT with options. Plain `TEXT` will be used instead.''])
      else (''TEXT'', this, []))"

text \<open>Lines 116-118.\<close>

definition CITEXT_toSql :: "dataType \<Rightarrow> string" where
  "CITEXT_toSql this = ''TEXT COLLATE NOCASE''"

text \<open>Lines 126-132.\<close>

definition CHAR_toSql :: "dataType \<Rightarrow> string" where
  "CHAR_toSql this =
     (if truthy (d_binary this)
      then ''CHAR BINARY('' @ js_to_string (d_length this) @ '')''
      else BaseTypes_CHAR_toSql this)"

text \<open>Lines 274-276.\<close>

definition ENUM_toSql :: "dataType \<Rightarrow> string" where
  "ENUM_toSql this = ''TEXT''"

text \<open>
  \<open>instance.toSql()\<close>: the method that the prototype chain of the instance's class
  gives. The integer and floating classes call \<open>NUMBER.prototype.toSql\<close> (lines 168-245).
  DATE, DATEONLY and JSON define no \<open>toSql\<close> here; their instances inherit the one of
  their abstract class, which is the parameter \<open>inherited\<close>. A method that does not
  assign to \<open>this\<close> and does not warn returns the instance as it is and no warning.
\<close>

definition toSql :: "(dataType \<Rightarrow> string) \<Rightarrow> dataType \<Rightarrow> string \<times> dataType \<times> warning list" where
  "toSql inherited this =
     (case d_kind this of
        DATE \<Rightarrow> (inherited this, this, [])
      | DATEONLY \<Rightarrow> (inherited this, this, [])
      | STRING \<Rightarrow> (STRING_toSql this, this, [])
      | CHARTYPE \<Rightarrow> (CHAR_toSql this, this, [])
      | NUMBER \<Rightarrow> (NUMBER_toSql this, this, [])
      | FLOAT \<Rightarrow> (NUMBER_toSql this, this, [])
      | REAL \<Rightarrow> (NUMBER_toSql this, this, [])
      | DOUBLE \<Rightarrow> (NUMBER_toSql this, this, [])
      | TINYINT \<Rightarrow> (NUMBER_toSql this, this, [])
      | SMALLINT \<Rightarrow> (NUMBER_toSql this, this, [])
      | MEDIUMINT \<Rightarrow> (NUMBER_toSql this, this, [])
      | INTEGER \<Rightarrow> (NUMBER_toSql this, this, [])
      | BIGINT \<Rightarrow> (NUMBER_toSql this, this, [])
      | TEXT \<Rightarrow> TEXT_toSql this
      | ENUM \<Rightarrow> (ENUM_toSql this, this, [])
      | JSONTYPE \<Rightarrow> (inherited this, this, [])
      | CITEXT \<Rightarrow> (CITEXT_toSql this, this, []))"

subsection \<open>Parsing\<close>

text \<open>
  Lines 54-56. \<open>JSON.parse\<close> is the built-in of the language, a parameter of the model:
  it returns the decoded value or throws. The function has no \<open>try\<close>, so what the
  built-in throws leaves the function.
\<close>

definition JSONTYPE_parse :: "(jsval \<Rightarrow> js_error + 'v) \<Rightarrow> jsval \<Rightarrow> js_error + 'v" where
  "JSONTYPE_parse JSON_parse data = JSON_parse data"

text \<open>
  Lines 64-70. \<open>new Date(string)\<close> is the built-in of the language, a parameter of the
  model; it never throws. \<open>date.includes\<close> throws a TypeError on a value that is not a
  string, and \<open>options.timezone\<close> throws one when \<open>options\<close> is undefined (\<open>None\<close>).
\<close>

record parse_options =
  timezone :: jsval

definition str_includes :: "string \<Rightarrow> char \<Rightarrow> bool" where
  "str_includes s c = (c \<in> set s)"

definition DATE_parse :: "(string \<Rightarrow> 'd) \<Rightarrow> jsval \<Rightarrow> parse_options option \<Rightarrow> js_error + 'd" where
  "DATE_parse newDate date options =
     (case date of
        JStr s \<Rightarrow>
          (if \<not> str_includes s (CHR ''+'')
           then (case options of
                   None \<Rightarrow> Inl TypeError
                 | Some opts \<Rightarrow> Inr (newDate (s @ js_to_string (timezone opts))))
           else Inr (newDate s))
      | _ \<Rightarrow> Inl TypeError)"

text \<open>Lines 78-80.\<close>

definition DATEONLY_parse :: "jsval \<Rightarrow> jsval" where
  "DATEONLY_parse date = date"

text \<open>Lines 247-262: the one \<open>parse\<close> given to FLOAT, DOUBLE and REAL.\<close>

definition floating_parse :: "jsval \<Rightarrow> jsval" where
  "floating_parse v =
     (if isString v
      then (if v = JStr ''NaN'' then JNaN
            else if v = JStr ''Infinity'' then JInfinity
            else if v = JStr ''-Infinity'' then JNegInfinity
            else v)
      else v)"

text \<open>Line 247: the classes that the \<open>forEach\<close> gives this \<open>parse\<close> to.\<close>

fun parse_float_family :: "dialect_type \<Rightarrow> (jsval \<Rightarrow> jsval) option" where
  "parse_float_family FLOAT = Some floating_parse"
| "parse_float_family DOUBLE = Some floating_parse"
| "parse_float_family REAL = Some floating_parse"
| "parse_float_family t = None"

subsection \<open>Extension\<close>

text \<open>
  Lines 298-305. \<open>extend\<close> receives a reference to an instance and returns a reference to
  a new one, so instances live in a store: a reference is an index into the list of the
  objects allocated so far, and \<open>new\<close> appends. Reading \<open>oldType.options\<close> throws a
  TypeError when \<open>oldType\<close> is not an object of the store.
\<close>

type_synonym addr = nat
type_synonym store = "dataType list"

definition store_lookup :: "store \<Rightarrow> addr \<Rightarrow> dataType option" where
  "store_lookup h a = (if a < length h then Some (h ! a) else None)"

definition new_instance :: "dialect_type \<Rightarrow> options \<Rightarrow> store \<Rightarrow> addr \<times> store \<times> warning list" where
  "new_instance DataType opts h =
     (case construct DataType opts of (inst, ws) \<Rightarrow> (length h, h @ [inst], ws))"

definition extend :: "dialect_type \<Rightarrow> store \<Rightarrow> addr \<Rightarrow> js_error + (addr \<times> store \<times> warning list)" where
  "extend DataType h oldType =
     (case store_lookup h oldType of
        None \<Rightarrow> Inl TypeError
      | Some old \<Rightarrow> Inr (new_instance DataType (d_options old) h))"

subsection \<open>Native type names\<close>

text \<open>
  Lines 26-46: \<open>BaseTypes.X.types.sqlite\<close>, in the order of the assignments. The value is
  an array of native type names or \<open>false\<close>.
\<close>

datatype sqlite_types = Unsupported | Names "string list"

definition types_sqlite :: "(base_type \<times> sqlite_types) list" where
  "types_sqlite =
    [(BaseTypes_DATE, Names [''DATETIME'']),
     (BaseTypes_STRING, Names [''VARCHAR'', ''VARCHAR BINARY'']),
     (BaseTypes_CHAR, Names [''CHAR'', ''CHAR BINARY'']),
     (BaseTypes_TEXT, Names [''TEXT'']),
     (BaseTypes_TINYINT, Names [''TINYINT'']),
     (BaseTypes_SMALLINT, Names [''SMALLINT'']),
     (BaseTypes_MEDIUMINT, Names [''MEDIUMINT'']),
     (BaseTypes_INTEGER, Names [''INTEGER'']),
     (BaseTypes_BIGINT, Names [''BIGINT'']),
     (BaseTypes_FLOAT, Names [''FLOAT'']),
     (BaseTypes_TIME, Names [''TIME'']),
     (BaseTypes_DATEONLY, Names [''DATE'']),
     (BaseTypes_BOOLEAN, Names [''TINYINT'']),
     (BaseTypes_BLOB, Names [''TINYBLOB'', ''BLOB'', ''LONGBLOB'']),
     (BaseTypes_DECIMAL, Names [''DECIMAL'']),
     (BaseTypes_UUID, Names [''UUID'']),
     (BaseTypes_ENUM, Unsupported),
     (BaseTypes_REAL, Names [''REAL'']),
     (BaseTypes_DOUBLE, Names [''DOUBLE PRECISION'']),
     (BaseTypes_GEOMETRY, Unsupported),
     (BaseTypes_JSON, Names [''JSON'', ''JSONB''])]"

text \<open>The abstract type has an array of native names.\<close>

definition reverse_supported :: "base_type \<Rightarrow> bool" where
  "reverse_supported b = (case map_of types_sqlite b of Some (Names ns) \<Rightarrow> True | _ \<Rightarrow> False)"

text \<open>
  Modelled from the spec: the reverse mapping, which the callers of this module perform.
  The spec says that each abstract type records the native type names that identify it
  when a schema is read, and that a name may identify more than one abstract type. The
  lookup of a name gives the abstract types that record it, in the order of the table.
\<close>

definition reverse_lookup :: "string \<Rightarrow> base_type list" where
  "reverse_lookup name =
     map fst (filter (\<lambda>(b, e). case e of Names ns \<Rightarrow> name \<in> set ns | Unsupported \<Rightarrow> False)
                types_sqlite)"

text \<open>The string without the given suffix, when it ends in it.\<close>

definition strip_suffix :: "string \<Rightarrow> string \<Rightarrow> string" where
  "strip_suffix suf s = (if suffix suf s then take (length s - length suf) s else s)"

text \<open>
  Modelled from the spec: the native type name of a rendered clause, which the callers
  of this module extract. The spec gives the rendering as the name, optionally suffixed
  with \<open>UNSIGNED\<close>, \<open>ZEROFILL\<close> and \<open>(length[,decimals])\<close>; the name is the clause
  without these suffixes.
\<close>

definition native_name :: "string \<Rightarrow> string" where
  "native_name sql =
     strip_suffix '' UNSIGNED''
       (strip_suffix '' ZEROFILL'' (takeWhile (\<lambda>c. c \<noteq> CHR ''('') sql))"

text \<open>
  The classes of this module that define their rendering here (or call the rendering of
  STRING and CHAR given above) and whose abstract class has an array of native names.
\<close>

definition round_trip_types :: "dialect_type list" where
  "round_trip_types =
     [STRING, CHARTYPE, FLOAT, REAL, DOUBLE, TINYINT, SMALLINT, MEDIUMINT, INTEGER, BIGINT, TEXT]"

subsection \<open>Strings that end in a negative timezone offset\<close>

text \<open>A string carries a negative offset when it ends in \<open>-hh:mm\<close>.\<close>

definition is_digit :: "char \<Rightarrow> bool" where
  "is_digit c = (c \<in> set ''0123456789'')"

definition has_negative_offset :: "string \<Rightarrow> bool" where
  "has_negative_offset s =
     (case rev s of
        m2 # m1 # c # h2 # h1 # sg # rest \<Rightarrow>
          sg = CHR ''-'' \<and> c = CHR '':'' \<and> is_digit h1 \<and> is_digit h2 \<and> is_digit m1 \<and> is_digit m2
      | _ \<Rightarrow> False)"

section \<open>Properties\<close>

subsection \<open>Helper facts\<close>

lemma is_integer_type_cases:
  "is_integer_type t \<Longrightarrow>
     t = TINYINT \<or> t = SMALLINT \<or> t = MEDIUMINT \<or> t = INTEGER \<or> t = BIGINT"
  by (cases t) simp_all

lemma exports_all: "snd ` set exports = UNIV"
proof -
  have "t \<in> snd ` set exports" for t
    by (cases t) (simp_all add: exports_def)
  then show ?thesis by blast
qed

lemma key_exports: "(key t, t) \<in> set exports"
  by (cases t) (simp_all add: exports_def)

lemma int_to_string_2: "int_to_string 2 = ''2''"
  by (simp add: int_to_string_def nat_to_string.simps digit_char_def)

lemma int_to_string_10: "int_to_string 10 = ''10''"
  by (simp add: int_to_string_def nat_to_string.simps digit_char_def)

lemma int_to_string_11: "int_to_string 11 = ''11''"
  by (simp add: int_to_string_def nat_to_string.simps digit_char_def)

subsection \<open>Integer types drop UNSIGNED and ZEROFILL\<close>

text \<open>
  C1. For each of TINYINT, SMALLINT, MEDIUMINT, INTEGER and BIGINT, constructing an
  instance from options whose unsigned or zerofill flag is set (truthy) returns an
  instance (construction has no failing branch) with both flags undefined and exactly one
  warning, whose text names the key of the type. The SQL rendered from that instance is
  the key followed only by the optional \<open>(length[,decimals])\<close>: neither \<open> UNSIGNED\<close> nor
  \<open> ZEROFILL\<close> follows the key, and rendering changes nothing and warns of nothing.
\<close>

theorem integer_construct_clears_flags:
  assumes "is_integer_type t"
    and "truthy (opt_unsigned opts) \<or> truthy (opt_zerofill opts)"
  shows "\<exists>inst. construct t opts =
            (inst, [warn (''SQLite does not support '' @ [CHR 0x27] @ key t @ [CHR 0x27]
                          @ '' with UNSIGNED or ZEROFILL. Plain '' @ [CHR 0x27] @ key t
                          @ [CHR 0x27] @ '' will be used instead.'')])
          \<and> d_unsigned inst = JUndefined \<and> d_zerofill inst = JUndefined
          \<and> toSql inherited inst =
              (key t @ (if truthy (opt_length opts)
                        then ''('' @ js_to_string (opt_length opts)
                             @ (if typeof_number (opt_decimals opts)
                                then '','' @ js_to_string (opt_decimals opts) else [])
                             @ '')''
                        else []), inst, [])
          \<and> \<not> prefix (key t @ '' UNSIGNED'') (fst (toSql inherited inst))
          \<and> \<not> prefix (key t @ '' ZEROFILL'') (fst (toSql inherited inst))"
  using assms is_integer_type_cases[OF assms(1)]
  by (auto simp: construct_def removeUnsupportedIntegerOptions_def BaseTypes_apply_def
        toSql_def NUMBER_toSql_def Let_def)

theorem integer_construct_clears_flags_witness:
  "is_integer_type INTEGER
   \<and> truthy (opt_unsigned \<lparr>opt_length = JNum 11, opt_binary = JUndefined,
         opt_decimals = JUndefined, opt_unsigned = JBool True, opt_zerofill = JBool True\<rparr>)
   \<and> (\<exists>inst. construct INTEGER \<lparr>opt_length = JNum 11, opt_binary = JUndefined,
         opt_decimals = JUndefined, opt_unsigned = JBool True, opt_zerofill = JBool True\<rparr> =
          (inst, [warn (''SQLite does not support '' @ [CHR 0x27] @ ''INTEGER'' @ [CHR 0x27]
                        @ '' with UNSIGNED or ZEROFILL. Plain '' @ [CHR 0x27] @ ''INTEGER''
                        @ [CHR 0x27] @ '' will be used instead.'')])
        \<and> d_unsigned inst = JUndefined \<and> d_zerofill inst = JUndefined
        \<and> toSql (\<lambda>d. []) inst = (''INTEGER(11)'', inst, []))"
  using integer_construct_clears_flags [of INTEGER "\<lparr>opt_length = JNum 11, opt_binary = JUndefined,
         opt_decimals = JUndefined, opt_unsigned = JBool True, opt_zerofill = JBool True\<rparr>" "\<lambda>d. []"]
  by (auto simp add: int_to_string_11)

subsection \<open>STRING and CHAR\<close>

text \<open>
  C6. For every value of the length, an instance of STRING renders as
  \<open>VARCHAR BINARY(length)\<close> when its binary flag is set (truthy) and as \<open>VARCHAR(length)\<close>
  when it is not, and an instance of CHAR renders as \<open>CHAR BINARY(length)\<close> when its
  binary flag is set and as \<open>CHAR(length)\<close> when it is not; \<open>length\<close> is the text that
  the template literal gives for the length. Rendering changes nothing and warns of
  nothing.
\<close>

theorem string_char_toSql:
  "(d_kind this = STRING \<longrightarrow>
      toSql inherited this =
        ((if truthy (d_binary this) then ''VARCHAR BINARY('' else ''VARCHAR('')
           @ js_to_string (d_length this) @ '')'', this, []))
   \<and> (d_kind this = CHARTYPE \<longrightarrow>
      toSql inherited this =
        ((if truthy (d_binary this) then ''CHAR BINARY('' else ''CHAR('')
           @ js_to_string (d_length this) @ '')'', this, []))"
  by (simp add: toSql_def STRING_toSql_def CHAR_toSql_def BaseTypes_STRING_toSql_def
        BaseTypes_CHAR_toSql_def)

text \<open>\<open>STRING(10, true)\<close>, \<open>STRING(10, false)\<close>, \<open>CHAR(10, true)\<close> and \<open>CHAR(10)\<close>.\<close>

theorem string_char_toSql_witness:
  "fst (toSql (\<lambda>d. []) (fst (construct STRING \<lparr>opt_length = JNum 10, opt_binary = JBool True,
       opt_decimals = JUndefined, opt_unsigned = JUndefined, opt_zerofill = JUndefined\<rparr>)))
    = ''VARCHAR BINARY(10)''
   \<and> fst (toSql (\<lambda>d. []) (fst (construct STRING \<lparr>opt_length = JNum 10, opt_binary = JBool False,
       opt_decimals = JUndefined, opt_unsigned = JUndefined, opt_zerofill = JUndefined\<rparr>)))
    = ''VARCHAR(10)''
   \<and> fst (toSql (\<lambda>d. []) (fst (construct CHARTYPE \<lparr>opt_length = JNum 10, opt_binary = JBool True,
       opt_decimals = JUndefined, opt_unsigned = JUndefined, opt_zerofill = JUndefined\<rparr>)))
    = ''CHAR BINARY(10)''
   \<and> fst (toSql (\<lambda>d. []) (fst (construct CHARTYPE \<lparr>opt_length = JNum 10, opt_binary = JUndefined,
       opt_decimals = JUndefined, opt_unsigned = JUndefined, opt_zerofill = JUndefined\<rparr>)))
    = ''CHAR(10)''"
  using string_char_toSql [of "fst (construct STRING \<lparr>opt_length = JNum 10, opt_binary = JBool True,
       opt_decimals = JUndefined, opt_unsigned = JUndefined, opt_zerofill = JUndefined\<rparr>)" "\<lambda>d. []"]
    string_char_toSql [of "fst (construct STRING \<lparr>opt_length = JNum 10, opt_binary = JBool False,
       opt_decimals = JUndefined, opt_unsigned = JUndefined, opt_zerofill = JUndefined\<rparr>)" "\<lambda>d. []"]
    string_char_toSql [of "fst (construct CHARTYPE \<lparr>opt_length = JNum 10, opt_binary = JBool True,
       opt_decimals = JUndefined, opt_unsigned = JUndefined, opt_zerofill = JUndefined\<rparr>)" "\<lambda>d. []"]
    string_char_toSql [of "fst (construct CHARTYPE \<lparr>opt_length = JNum 10, opt_binary = JUndefined,
       opt_decimals = JUndefined, opt_unsigned = JUndefined, opt_zerofill = JUndefined\<rparr>)" "\<lambda>d. []"]
  by (simp add: construct_def BaseTypes_apply_def int_to_string_10)

subsection \<open>TEXT\<close>

text \<open>
  C7. Every instance of TEXT renders as exactly \<open>TEXT\<close>. When the instance has a length
  (the field is truthy, which is the test of the code), rendering sets the length to
  undefined and emits one warning; when it has none, rendering leaves the instance as it
  is and emits no warning.
\<close>

theorem TEXT_toSql_discards_length:
  assumes "d_kind this = TEXT"
  shows "\<exists>this' ws. toSql inherited this = (''TEXT'', this', ws)
          \<and> (truthy (d_length this) \<longrightarrow>
                this' = this\<lparr>d_length := JUndefined\<rparr>
                \<and> ws = [warn ''SQLite does not support TEXT with options. Plain `TEXT` will be used instead.''])
          \<and> (\<not> truthy (d_length this) \<longrightarrow> this' = this \<and> ws = [])"
  using assms by (simp add: toSql_def TEXT_toSql_def)

text \<open>\<open>TEXT('tiny')\<close> warns and loses its length; \<open>TEXT()\<close> does not warn.\<close>

theorem TEXT_toSql_discards_length_witness:
  "d_kind (fst (construct TEXT \<lparr>opt_length = JStr ''tiny'', opt_binary = JUndefined,
       opt_decimals = JUndefined, opt_unsigned = JUndefined, opt_zerofill = JUndefined\<rparr>)) = TEXT
   \<and> truthy (d_length (fst (construct TEXT \<lparr>opt_length = JStr ''tiny'', opt_binary = JUndefined,
       opt_decimals = JUndefined, opt_unsigned = JUndefined, opt_zerofill = JUndefined\<rparr>)))
   \<and> (\<exists>this'. toSql (\<lambda>d. []) (fst (construct TEXT \<lparr>opt_length = JStr ''tiny'', opt_binary = JUndefined,
       opt_decimals = JUndefined, opt_unsigned = JUndefined, opt_zerofill = JUndefined\<rparr>))
        = (''TEXT'', this',
           [warn ''SQLite does not support TEXT with options. Plain `TEXT` will be used instead.''])
        \<and> d_length this' = JUndefined)
   \<and> toSql (\<lambda>d. []) (fst (construct TEXT \<lparr>opt_length = JUndefined, opt_binary = JUndefined,
       opt_decimals = JUndefined, opt_unsigned = JUndefined, opt_zerofill = JUndefined\<rparr>))
        = (''TEXT'', fst (construct TEXT \<lparr>opt_length = JUndefined, opt_binary = JUndefined,
       opt_decimals = JUndefined, opt_unsigned = JUndefined, opt_zerofill = JUndefined\<rparr>), [])"
  using TEXT_toSql_discards_length [of "fst (construct TEXT \<lparr>opt_length = JStr ''tiny'', opt_binary = JUndefined,
       opt_decimals = JUndefined, opt_unsigned = JUndefined, opt_zerofill = JUndefined\<rparr>)" "\<lambda>d. []"]
    TEXT_toSql_discards_length [of "fst (construct TEXT \<lparr>opt_length = JUndefined, opt_binary = JUndefined,
       opt_decimals = JUndefined, opt_unsigned = JUndefined, opt_zerofill = JUndefined\<rparr>)" "\<lambda>d. []"]
  by (auto simp add: construct_def BaseTypes_apply_def)

subsection \<open>Parsing floating values\<close>

text \<open>
  C4. The \<open>parse\<close> of FLOAT, DOUBLE and REAL is one function. It returns NaN for the string
  \<open>NaN\<close>, positive infinity for the string \<open>Infinity\<close>, negative infinity for the string
  \<open>-Infinity\<close>, and every other value, string or not, as it is.
\<close>

theorem floating_parse_special_values:
  "parse_float_family FLOAT = Some floating_parse
   \<and> parse_float_family DOUBLE = Some floating_parse
   \<and> parse_float_family REAL = Some floating_parse
   \<and> floating_parse (JStr ''NaN'') = JNaN
   \<and> floating_parse (JStr ''Infinity'') = JInfinity
   \<and> floating_parse (JStr ''-Infinity'') = JNegInfinity
   \<and> (v \<noteq> JStr ''NaN'' \<and> v \<noteq> JStr ''Infinity'' \<and> v \<noteq> JStr ''-Infinity''
        \<longrightarrow> floating_parse v = v)"
  by (simp add: floating_parse_def)

text \<open>The string \<open>3.5\<close> and the number 3 pass through.\<close>

theorem floating_parse_special_values_witness:
  "JStr ''3.5'' \<noteq> JStr ''NaN'' \<and> JStr ''3.5'' \<noteq> JStr ''Infinity''
   \<and> JStr ''3.5'' \<noteq> JStr ''-Infinity''
   \<and> floating_parse (JStr ''3.5'') = JStr ''3.5''
   \<and> floating_parse (JNum 3) = JNum 3
   \<and> floating_parse (JStr ''NaN'') = JNaN"
  using floating_parse_special_values [of "JStr ''3.5''"]
    floating_parse_special_values [of "JNum 3"]
  by simp

subsection \<open>Parsing dates\<close>

text \<open>
  C5. For every string given to \<open>DATE.parse\<close>: when the string contains no \<open>+\<close>, the
  result is the timestamp that the built-in makes of the string with the timezone string
  of the caller appended; when it contains a \<open>+\<close>, the result is the timestamp that the
  built-in makes of the string alone, whatever the options are. So \<open>2020-01-01 00:00:00\<close>
  with the timezone \<open>+00:00\<close> gives what \<open>2020-01-01 00:00:00+00:00\<close> gives.
\<close>

theorem DATE_parse_branches:
  "(\<not> str_includes s (CHR ''+'') \<longrightarrow>
      DATE_parse newDate (JStr s) (Some \<lparr>timezone = JStr tz\<rparr>) = Inr (newDate (s @ tz)))
   \<and> (str_includes s (CHR ''+'') \<longrightarrow> DATE_parse newDate (JStr s) options = Inr (newDate s))
   \<and> DATE_parse newDate (JStr ''2020-01-01 00:00:00'') (Some \<lparr>timezone = JStr ''+00:00''\<rparr>)
       = DATE_parse newDate (JStr ''2020-01-01 00:00:00+00:00'') options"
  by (simp add: DATE_parse_def str_includes_def)

text \<open>With \<open>JStr\<close> in the place of the built-in, the result is the text that it receives.\<close>

theorem DATE_parse_branches_witness:
  "\<not> str_includes ''2020-01-01 00:00:00'' (CHR ''+'')
   \<and> DATE_parse JStr (JStr ''2020-01-01 00:00:00'') (Some \<lparr>timezone = JStr ''+00:00''\<rparr>)
       = Inr (JStr ''2020-01-01 00:00:00+00:00'')
   \<and> str_includes ''2020-01-01 00:00:00+02:00'' (CHR ''+'')
   \<and> DATE_parse JStr (JStr ''2020-01-01 00:00:00+02:00'') (Some \<lparr>timezone = JStr ''+00:00''\<rparr>)
       = Inr (JStr ''2020-01-01 00:00:00+02:00'')"
  using DATE_parse_branches [of "''2020-01-01 00:00:00''" JStr "''+00:00''" None]
    DATE_parse_branches [of "''2020-01-01 00:00:00+02:00''" JStr "''+00:00''"
      "Some \<lparr>timezone = JStr ''+00:00''\<rparr>"]
  by (simp add: str_includes_def)

text \<open>
  C10. A string that ends in a negative offset and contains no \<open>+\<close> takes the branch
  that appends: the built-in receives the string, offset included, followed by the
  timezone string of the caller. When the built-in tells all strings apart and the
  timezone string is not empty, the result is not the timestamp of the string alone.
\<close>

theorem DATE_parse_negative_offset_concatenates:
  assumes "has_negative_offset s" and "\<not> str_includes s (CHR ''+'')"
  shows "DATE_parse newDate (JStr s) (Some \<lparr>timezone = JStr tz\<rparr>) = Inr (newDate (s @ tz))
         \<and> (inj newDate \<and> tz \<noteq> [] \<longrightarrow>
              DATE_parse newDate (JStr s) (Some \<lparr>timezone = JStr tz\<rparr>) \<noteq> Inr (newDate s))"
  using assms by (auto simp: DATE_parse_def dest: injD)

theorem DATE_parse_negative_offset_concatenates_witness:
  "has_negative_offset ''2020-01-01 00:00:00-05:00''
   \<and> \<not> str_includes ''2020-01-01 00:00:00-05:00'' (CHR ''+'')
   \<and> inj JStr \<and> ''+00:00'' \<noteq> []
   \<and> DATE_parse JStr (JStr ''2020-01-01 00:00:00-05:00'') (Some \<lparr>timezone = JStr ''+00:00''\<rparr>)
       = Inr (JStr ''2020-01-01 00:00:00-05:00+00:00'')
   \<and> DATE_parse JStr (JStr ''2020-01-01 00:00:00-05:00'') (Some \<lparr>timezone = JStr ''+00:00''\<rparr>)
       \<noteq> Inr (JStr ''2020-01-01 00:00:00-05:00'')"
proof -
  have h1: "has_negative_offset ''2020-01-01 00:00:00-05:00''"
    by (simp add: has_negative_offset_def is_digit_def)
  have h2: "\<not> str_includes ''2020-01-01 00:00:00-05:00'' (CHR ''+'')"
    by (simp add: str_includes_def)
  have h3: "inj JStr" by (simp add: inj_def)
  from DATE_parse_negative_offset_concatenates [OF h1 h2, of JStr "''+00:00''"] h1 h2 h3
  show ?thesis by simp
qed

subsection \<open>Parsing JSON\<close>

text \<open>
  C8. \<open>JSON.parse\<close> of the module returns the value that the built-in decodes from the
  text, and when the built-in throws, the error leaves the function: the result is the
  error, the function catches nothing.
\<close>

theorem JSONTYPE_parse_propagates:
  "(JSON_parse data = Inr v \<longrightarrow> JSONTYPE_parse JSON_parse data = Inr v)
   \<and> (JSON_parse data = Inl e \<longrightarrow> JSONTYPE_parse JSON_parse data = Inl e)"
  by (simp add: JSONTYPE_parse_def)

text \<open>An instance with a built-in that decodes the text \<open>null\<close> and throws on any other.\<close>

theorem JSONTYPE_parse_propagates_witness:
  "JSONTYPE_parse (\<lambda>d. if d = JStr ''null'' then Inr JNull else Inl SyntaxError) (JStr ''null'')
       = Inr JNull
   \<and> JSONTYPE_parse (\<lambda>d. if d = JStr ''null'' then Inr JNull else Inl SyntaxError) (JStr ''{'')
       = Inl SyntaxError"
  using JSONTYPE_parse_propagates
      [of "\<lambda>d. if d = JStr ''null'' then Inr JNull else Inl SyntaxError" "JStr ''null''" JNull SyntaxError]
    JSONTYPE_parse_propagates
      [of "\<lambda>d. if d = JStr ''null'' then Inr JNull else Inl SyntaxError" "JStr ''{''" JNull SyntaxError]
  by simp

subsection \<open>What rendering changes\<close>

lemma toSql_cases:
  "toSql inherited this =
     (if d_kind this = TEXT then TEXT_toSql this
      else (fst (toSql inherited this), this, []))"
  by (cases "d_kind this") (simp_all add: toSql_def)

text \<open>
  C2, as stated, fails: rendering an instance of TEXT that has a length assigns undefined
  to its length (line 105), so the instance after the call is not the instance before it.
\<close>

theorem TEXT_toSql_changes_instance:
  "fst (snd (TEXT_toSql \<lparr>d_kind = TEXT, d_key = ''TEXT'',
       d_options = \<lparr>opt_length = JStr ''tiny'', opt_binary = JUndefined, opt_decimals = JUndefined,
                     opt_unsigned = JUndefined, opt_zerofill = JUndefined\<rparr>,
       d_length = JStr ''tiny'', d_binary = JUndefined, d_decimals = JUndefined,
       d_unsigned = JUndefined, d_zerofill = JUndefined\<rparr>))
   \<noteq> \<lparr>d_kind = TEXT, d_key = ''TEXT'',
       d_options = \<lparr>opt_length = JStr ''tiny'', opt_binary = JUndefined, opt_decimals = JUndefined,
                     opt_unsigned = JUndefined, opt_zerofill = JUndefined\<rparr>,
       d_length = JStr ''tiny'', d_binary = JUndefined, d_decimals = JUndefined,
       d_unsigned = JUndefined, d_zerofill = JUndefined\<rparr>"
  by (simp add: TEXT_toSql_def)

text \<open>
  C2, amended. Rendering leaves every field of the instance as it is and emits no
  warning, except for an instance of TEXT whose length is truthy: there it sets the length
  to undefined, changes no other field, and emits one warning. In every case, rendering
  the instance again, as the first call left it, returns the same string. The renderings
  that DATE, DATEONLY and JSON inherit from their abstract classes are taken as functions
  of the instance.
\<close>

theorem toSql_frame:
  assumes "toSql inherited this = (sql, this', ws)"
  shows "(d_kind this = TEXT \<and> truthy (d_length this) \<longrightarrow>
            this' = this\<lparr>d_length := JUndefined\<rparr>
            \<and> ws = [warn ''SQLite does not support TEXT with options. Plain `TEXT` will be used instead.''])
         \<and> (\<not> (d_kind this = TEXT \<and> truthy (d_length this)) \<longrightarrow> this' = this \<and> ws = [])
         \<and> fst (toSql inherited this') = sql"
proof (cases "d_kind this = TEXT")
  case True
  with assms show ?thesis
    by (auto simp: toSql_def TEXT_toSql_def split: if_splits)
next
  case False
  with assms toSql_cases [of inherited this] have "this' = this" "ws = []" "sql = fst (toSql inherited this)"
    by auto
  with False show ?thesis by simp
qed

theorem toSql_frame_witness:
  "toSql (\<lambda>d. []) \<lparr>d_kind = TEXT, d_key = ''TEXT'',
       d_options = \<lparr>opt_length = JStr ''tiny'', opt_binary = JUndefined, opt_decimals = JUndefined,
                     opt_unsigned = JUndefined, opt_zerofill = JUndefined\<rparr>,
       d_length = JStr ''tiny'', d_binary = JUndefined, d_decimals = JUndefined,
       d_unsigned = JUndefined, d_zerofill = JUndefined\<rparr>
     = (''TEXT'',
        \<lparr>d_kind = TEXT, d_key = ''TEXT'',
         d_options = \<lparr>opt_length = JStr ''tiny'', opt_binary = JUndefined, opt_decimals = JUndefined,
                     opt_unsigned = JUndefined, opt_zerofill = JUndefined\<rparr>,
         d_length = JUndefined, d_binary = JUndefined, d_decimals = JUndefined,
         d_unsigned = JUndefined, d_zerofill = JUndefined\<rparr>,
        [warn ''SQLite does not support TEXT with options. Plain `TEXT` will be used instead.''])
   \<and> fst (toSql (\<lambda>d. []) \<lparr>d_kind = TEXT, d_key = ''TEXT'',
         d_options = \<lparr>opt_length = JStr ''tiny'', opt_binary = JUndefined, opt_decimals = JUndefined,
                     opt_unsigned = JUndefined, opt_zerofill = JUndefined\<rparr>,
         d_length = JUndefined, d_binary = JUndefined, d_decimals = JUndefined,
         d_unsigned = JUndefined, d_zerofill = JUndefined\<rparr>) = ''TEXT''"
proof -
  let ?t = "\<lparr>d_kind = TEXT, d_key = ''TEXT'',
       d_options = \<lparr>opt_length = JStr ''tiny'', opt_binary = JUndefined, opt_decimals = JUndefined,
                     opt_unsigned = JUndefined, opt_zerofill = JUndefined\<rparr>,
       d_length = JStr ''tiny'', d_binary = JUndefined, d_decimals = JUndefined,
       d_unsigned = JUndefined, d_zerofill = JUndefined\<rparr>"
  have h: "toSql (\<lambda>d. []) ?t = (''TEXT'', ?t\<lparr>d_length := JUndefined\<rparr>,
        [warn ''SQLite does not support TEXT with options. Plain `TEXT` will be used instead.''])"
    by (simp add: toSql_def TEXT_toSql_def)
  from toSql_frame [OF h] h show ?thesis by simp
qed

subsection \<open>Extension\<close>

lemma store_lookup_append:
  "a < length h \<Longrightarrow> store_lookup (h @ xs) a = store_lookup h a"
  by (simp add: store_lookup_def nth_append)

lemma construct_options: "d_options (fst (construct t opts)) = opts"
  by (simp add: construct_def removeUnsupportedIntegerOptions_def BaseTypes_apply_def)

lemma construct_kind: "d_kind (fst (construct t opts)) = t"
  by (simp add: construct_def removeUnsupportedIntegerOptions_def BaseTypes_apply_def)

text \<open>
  C9. For every exported class (every class is exported, \<open>exports_all\<close>) and every
  instance in the store, \<open>extend\<close> returns a reference to a new object, different from the
  given one, that is an instance of the class, holds the options object of the given
  instance, and is what the constructor of the class builds from these options; when the
  given instance is as its constructor built it, the new instance equals it field by
  field. The given instance, and every object that was in the store, is unchanged.
\<close>

theorem extend_copies_options:
  assumes "store_lookup h oldType = Some old"
  shows "\<exists>a h' ws inst. extend DataType h oldType = Inr (a, h', ws)
           \<and> a \<noteq> oldType
           \<and> store_lookup h' a = Some inst
           \<and> d_kind inst = DataType
           \<and> d_options inst = d_options old
           \<and> inst = fst (construct DataType (d_options old))
           \<and> (\<forall>opts. old = fst (construct DataType opts) \<longrightarrow> inst = old)
           \<and> store_lookup h' oldType = Some old
           \<and> (\<forall>b. b < length h \<longrightarrow> store_lookup h' b = store_lookup h b)"
proof -
  from assms have lt: "oldType < length h"
    by (auto simp: store_lookup_def split: if_splits)
  obtain inst ws where c: "construct DataType (d_options old) = (inst, ws)"
    by (cases "construct DataType (d_options old)")
  then have e: "extend DataType h oldType = Inr (length h, h @ [inst], ws)"
    using assms by (simp add: extend_def new_instance_def)
  have i: "inst = fst (construct DataType (d_options old))" using c by simp
  have "store_lookup (h @ [inst]) (length h) = Some inst"
    by (simp add: store_lookup_def)
  moreover have "d_kind inst = DataType" "d_options inst = d_options old"
    using i by (simp_all add: construct_kind construct_options)
  moreover have "\<forall>opts. old = fst (construct DataType opts) \<longrightarrow> inst = old"
    using i by (auto simp: construct_options)
  moreover have "store_lookup (h @ [inst]) oldType = Some old"
    using lt assms by (simp add: store_lookup_append)
  moreover have "\<forall>b. b < length h \<longrightarrow> store_lookup (h @ [inst]) b = store_lookup h b"
    by (simp add: store_lookup_append)
  ultimately show ?thesis using e lt i by auto
qed

theorem extend_copies_options_witness:
  "store_lookup [fst (construct INTEGER \<lparr>opt_length = JNum 11, opt_binary = JUndefined,
         opt_decimals = JUndefined, opt_unsigned = JUndefined, opt_zerofill = JUndefined\<rparr>)] 0
     = Some (fst (construct INTEGER \<lparr>opt_length = JNum 11, opt_binary = JUndefined,
         opt_decimals = JUndefined, opt_unsigned = JUndefined, opt_zerofill = JUndefined\<rparr>))
   \<and> extend INTEGER [fst (construct INTEGER \<lparr>opt_length = JNum 11, opt_binary = JUndefined,
         opt_decimals = JUndefined, opt_unsigned = JUndefined, opt_zerofill = JUndefined\<rparr>)] 0
     = Inr (1, [fst (construct INTEGER \<lparr>opt_length = JNum 11, opt_binary = JUndefined,
                  opt_decimals = JUndefined, opt_unsigned = JUndefined, opt_zerofill = JUndefined\<rparr>),
                fst (construct INTEGER \<lparr>opt_length = JNum 11, opt_binary = JUndefined,
                  opt_decimals = JUndefined, opt_unsigned = JUndefined, opt_zerofill = JUndefined\<rparr>)], [])"
proof -
  let ?o = "\<lparr>opt_length = JNum 11, opt_binary = JUndefined,
         opt_decimals = JUndefined, opt_unsigned = JUndefined, opt_zerofill = JUndefined\<rparr>"
  have h: "store_lookup [fst (construct INTEGER ?o)] 0 = Some (fst (construct INTEGER ?o))"
    by (simp add: store_lookup_def)
  from extend_copies_options [OF h, of INTEGER]
  obtain a h' ws inst where e: "extend INTEGER [fst (construct INTEGER ?o)] 0 = Inr (a, h', ws)"
    and i: "inst = fst (construct INTEGER ?o)"
    by (auto simp: construct_options)
  have "extend INTEGER [fst (construct INTEGER ?o)] 0
     = Inr (1, [fst (construct INTEGER ?o), fst (construct INTEGER ?o)], [])"
    using e by (simp add: extend_def new_instance_def store_lookup_def construct_def
        removeUnsupportedIntegerOptions_def BaseTypes_apply_def)
  with h show ?thesis by simp
qed

subsection \<open>From the rendering back to the abstract type\<close>

lemma round_trip_types_cases:
  "t \<in> set round_trip_types \<Longrightarrow>
     t = STRING \<or> t = CHARTYPE \<or> t = FLOAT \<or> t = REAL \<or> t = DOUBLE \<or> t = TINYINT
     \<or> t = SMALLINT \<or> t = MEDIUMINT \<or> t = INTEGER \<or> t = BIGINT \<or> t = TEXT"
  by (auto simp: round_trip_types_def)

lemma takeWhile_paren:
  "CHR ''('' \<notin> set xs \<Longrightarrow> takeWhile (\<lambda>c. c \<noteq> CHR ''('') (xs @ CHR ''('' # ys) = xs"
  by (induction xs) auto

lemma takeWhile_no_paren:
  "CHR ''('' \<notin> set xs \<Longrightarrow> takeWhile (\<lambda>c. c \<noteq> CHR ''('') xs = xs"
  by (induction xs) auto

lemma NUMBER_toSql_eq:
  "NUMBER_toSql this =
     d_key this @ (if truthy (d_unsigned this) then '' UNSIGNED'' else [])
       @ (if truthy (d_zerofill this) then '' ZEROFILL'' else [])
       @ (if truthy (d_length this)
          then CHR ''('' # js_to_string (d_length this)
               @ (if typeof_number (d_decimals this)
                  then '','' @ js_to_string (d_decimals this) else [])
               @ '')''
          else [])"
  by (simp add: NUMBER_toSql_def Let_def)

lemma NUMBER_toSql_shape:
  "\<exists>u z p. NUMBER_toSql this = d_key this @ u @ z @ p
      \<and> (u = [] \<or> u = '' UNSIGNED'') \<and> (z = [] \<or> z = '' ZEROFILL'')
      \<and> (p = [] \<or> (\<exists>q. p = CHR ''('' # q))"
  apply (rule exI [of _ "if truthy (d_unsigned this) then '' UNSIGNED'' else []"])
  apply (rule exI [of _ "if truthy (d_zerofill this) then '' ZEROFILL'' else []"])
  apply (rule exI [of _ "if truthy (d_length this)
          then CHR ''('' # js_to_string (d_length this)
               @ (if typeof_number (d_decimals this)
                  then '','' @ js_to_string (d_decimals this) else [])
               @ '')''
          else []"])
  apply (simp add: NUMBER_toSql_eq)
  done

lemma native_name_NUMBER_toSql:
  assumes "CHR ''('' \<notin> set (d_key this)"
    and "\<not> suffix '' ZEROFILL'' (d_key this)" and "\<not> suffix '' UNSIGNED'' (d_key this)"
  shows "native_name (NUMBER_toSql this) = d_key this"
proof -
  obtain u z p where s: "NUMBER_toSql this = d_key this @ u @ z @ p"
    and u: "u = [] \<or> u = '' UNSIGNED''" and z: "z = [] \<or> z = '' ZEROFILL''"
    and p: "p = [] \<or> (\<exists>q. p = CHR ''('' # q)"
    using NUMBER_toSql_shape by blast
  have np: "CHR ''('' \<notin> set (d_key this @ u @ z)" using assms(1) u z by auto
  have tw: "takeWhile (\<lambda>c. c \<noteq> CHR ''('') (NUMBER_toSql this) = d_key this @ u @ z"
  proof -
    from p show ?thesis
    proof
      assume "p = []" with s np show ?thesis using takeWhile_no_paren [of "d_key this @ u @ z"] by simp
    next
      assume "\<exists>q. p = CHR ''('' # q"
      then obtain q where "p = CHR ''('' # q" ..
      with s np show ?thesis using takeWhile_paren [of "d_key this @ u @ z" q] by simp
    qed
  qed
  have sz: "strip_suffix '' ZEROFILL'' (d_key this @ u @ z) = d_key this @ u"
  proof -
    from z show ?thesis
    proof
      assume "z = []"
      moreover have "\<not> suffix '' ZEROFILL'' (d_key this @ u)"
        using u assms(2) by (auto simp: suffix_def)
      ultimately show ?thesis by (simp add: strip_suffix_def)
    next
      assume "z = '' ZEROFILL''"
      then show ?thesis by (simp add: strip_suffix_def suffix_def)
    qed
  qed
  have su: "strip_suffix '' UNSIGNED'' (d_key this @ u) = d_key this"
  proof -
    from u show ?thesis
    proof
      assume "u = []"
      with assms(3) show ?thesis by (simp add: strip_suffix_def)
    next
      assume "u = '' UNSIGNED''"
      then show ?thesis by (simp add: strip_suffix_def suffix_def)
    qed
  qed
  show ?thesis by (simp add: native_name_def tw sz su)
qed

lemma native_name_STRING_toSql:
  "native_name (STRING_toSql this) =
     (if truthy (d_binary this) then ''VARCHAR BINARY'' else ''VARCHAR'')"
  by (simp add: STRING_toSql_def BaseTypes_STRING_toSql_def native_name_def strip_suffix_def
        suffix_to_prefix)

lemma native_name_CHAR_toSql:
  "native_name (CHAR_toSql this) =
     (if truthy (d_binary this) then ''CHAR BINARY'' else ''CHAR'')"
  by (simp add: CHAR_toSql_def BaseTypes_CHAR_toSql_def native_name_def strip_suffix_def
        suffix_to_prefix)

lemma native_name_TEXT_toSql: "native_name (fst (TEXT_toSql this)) = ''TEXT''"
  by (simp add: TEXT_toSql_def native_name_def strip_suffix_def suffix_to_prefix)

lemma key_plain:
  "CHR ''('' \<notin> set (key t) \<and> \<not> suffix '' ZEROFILL'' (key t) \<and> \<not> suffix '' UNSIGNED'' (key t)"
  by (cases t) (simp_all add: suffix_to_prefix)

lemma reverse_lookup_names:
  "reverse_lookup ''VARCHAR'' = [BaseTypes_STRING]"
  "reverse_lookup ''VARCHAR BINARY'' = [BaseTypes_STRING]"
  "reverse_lookup ''CHAR'' = [BaseTypes_CHAR]"
  "reverse_lookup ''CHAR BINARY'' = [BaseTypes_CHAR]"
  "reverse_lookup ''TEXT'' = [BaseTypes_TEXT]"
  "reverse_lookup ''FLOAT'' = [BaseTypes_FLOAT]"
  "reverse_lookup ''REAL'' = [BaseTypes_REAL]"
  "reverse_lookup ''DOUBLE PRECISION'' = [BaseTypes_DOUBLE]"
  "reverse_lookup ''TINYINT'' = [BaseTypes_TINYINT, BaseTypes_BOOLEAN]"
  "reverse_lookup ''SMALLINT'' = [BaseTypes_SMALLINT]"
  "reverse_lookup ''MEDIUMINT'' = [BaseTypes_MEDIUMINT]"
  "reverse_lookup ''INTEGER'' = [BaseTypes_INTEGER]"
  "reverse_lookup ''BIGINT'' = [BaseTypes_BIGINT]"
  by (simp_all add: reverse_lookup_def types_sqlite_def)

text \<open>
  An instance of TINYINT without options renders as \<open>TINYINT\<close> (line 169 calls
  \<open>NUMBER.prototype.toSql\<close>), and the table records this name for TINYINT (line 30) and
  for BOOLEAN (line 38): the lookup of the name gives both abstract types.
\<close>

lemma TINYINT_reverse_lookup_ambiguous:
  "reverse_lookup (native_name (NUMBER_toSql \<lparr>d_kind = TINYINT, d_key = ''TINYINT'',
       d_options = \<lparr>opt_length = JUndefined, opt_binary = JUndefined, opt_decimals = JUndefined,
                     opt_unsigned = JUndefined, opt_zerofill = JUndefined\<rparr>,
       d_length = JUndefined, d_binary = JUndefined, d_decimals = JUndefined,
       d_unsigned = JUndefined, d_zerofill = JUndefined\<rparr>))
   \<noteq> [base_of TINYINT]"
  by (simp add: NUMBER_toSql_def native_name_def strip_suffix_def suffix_to_prefix
        reverse_lookup_def types_sqlite_def)

text \<open>
  The classes that this module renders and whose abstract type has an array of native
  names are STRING, CHAR, TEXT, FLOAT, REAL, DOUBLE, TINYINT, SMALLINT, MEDIUMINT, INTEGER
  and BIGINT. For every instance of one of them that carries the key of its class, the
  abstract type is among the types that the table records for the native name of the
  rendering; it is the only one, except for TINYINT. The abstract types DATE, DATEONLY,
  JSON, TIME, BOOLEAN, BLOB, DECIMAL and UUID also have an array of native names, but
  their rendering is defined outside this module, so nothing is stated of them.
\<close>

lemma render_reverse_lookup:
  assumes "t \<in> set round_trip_types" and "d_kind this = t" and "d_key this = key t"
    and "toSql inherited this = (sql, this', ws)"
  shows "reverse_supported (base_of t)
         \<and> base_of t \<in> set (reverse_lookup (native_name sql))
         \<and> (t \<noteq> TINYINT \<longrightarrow> reverse_lookup (native_name sql) = [base_of t])
         \<and> (t = TINYINT \<longrightarrow> reverse_lookup (native_name sql) = [BaseTypes_TINYINT, BaseTypes_BOOLEAN])"
proof -
  have sup: "reverse_supported (base_of t)"
    using round_trip_types_cases [OF assms(1)]
    by (auto simp: reverse_supported_def types_sqlite_def)
  have num: "native_name (NUMBER_toSql this) = key t"
    using native_name_NUMBER_toSql [of this] key_plain [of t] assms(3) by simp
  have sql: "sql = fst (toSql inherited this)" using assms(4) by simp
  have nm: "native_name sql =
      (if t = STRING then (if truthy (d_binary this) then ''VARCHAR BINARY'' else ''VARCHAR'')
       else if t = CHARTYPE then (if truthy (d_binary this) then ''CHAR BINARY'' else ''CHAR'')
       else key t)"
    using round_trip_types_cases [OF assms(1)] assms(2) num
    unfolding sql
    by (auto simp: toSql_def native_name_STRING_toSql native_name_CHAR_toSql
          native_name_TEXT_toSql)
  show ?thesis
    using round_trip_types_cases [OF assms(1)] sup
    unfolding nm
    by (auto simp: reverse_lookup_names)
qed

text \<open>\<open>FLOAT UNSIGNED(10,2)\<close> has the native name \<open>FLOAT\<close>, recorded for FLOAT only.\<close>

lemma render_reverse_lookup_example:
  "FLOAT \<in> set round_trip_types
   \<and> toSql (\<lambda>d. []) \<lparr>d_kind = FLOAT, d_key = ''FLOAT'',
       d_options = \<lparr>opt_length = JNum 10, opt_binary = JUndefined, opt_decimals = JNum 2,
                     opt_unsigned = JBool True, opt_zerofill = JUndefined\<rparr>,
       d_length = JNum 10, d_binary = JUndefined, d_decimals = JNum 2,
       d_unsigned = JBool True, d_zerofill = JUndefined\<rparr>
      = (''FLOAT UNSIGNED(10,2)'', \<lparr>d_kind = FLOAT, d_key = ''FLOAT'',
       d_options = \<lparr>opt_length = JNum 10, opt_binary = JUndefined, opt_decimals = JNum 2,
                     opt_unsigned = JBool True, opt_zerofill = JUndefined\<rparr>,
       d_length = JNum 10, d_binary = JUndefined, d_decimals = JNum 2,
       d_unsigned = JBool True, d_zerofill = JUndefined\<rparr>, [])
   \<and> reverse_lookup (native_name ''FLOAT UNSIGNED(10,2)'') = [BaseTypes_FLOAT]"
proof -
  let ?f = "\<lparr>d_kind = FLOAT, d_key = ''FLOAT'',
       d_options = \<lparr>opt_length = JNum 10, opt_binary = JUndefined, opt_decimals = JNum 2,
                     opt_unsigned = JBool True, opt_zerofill = JUndefined\<rparr>,
       d_length = JNum 10, d_binary = JUndefined, d_decimals = JNum 2,
       d_unsigned = JBool True, d_zerofill = JUndefined\<rparr>"
  have h1: "FLOAT \<in> set round_trip_types" by (simp add: round_trip_types_def)
  have h2: "d_kind ?f = FLOAT" by simp
  have h3: "d_key ?f = key FLOAT" by simp
  have h4: "toSql (\<lambda>d. []) ?f = (''FLOAT UNSIGNED(10,2)'', ?f, [])"
    by (simp add: toSql_def NUMBER_toSql_def int_to_string_10 int_to_string_2)
  from render_reverse_lookup [OF h1 h2 h3 h4] h1 h4 show ?thesis by simp
qed

end
